theory Spec2Isabelle
  imports Main "HOL-Library.AList"
begin

section \<open>Values supplied by the collaborators of \<open>yotta/lib/component.py\<close>\<close>

text \<open>
  The module \<open>component.py\<close> calls into \<open>ordered_json\<close>, \<open>version\<close>, \<open>vcs\<close>, \<open>access\<close>
  and \<open>pool\<close>, none of which it defines. Their results enter the model as parameters:
  a reader of description files, a version parser, a VCS lookup, and the satisfiers
  of \<open>access\<close>, which are state transformers over an abstract world \<open>'w\<close> (disk and
  network). Exceptions are values of the type \<open>exn\<close>; a function of the source that
  can raise returns \<open>exn + 'a\<close> with \<open>Inl\<close> for the exception.
\<close>

datatype exn =
    ComponentUnavailable string
  | TargetUnavailable string
  | KeyError string
  | TypeError string
  | ValueError string
  | IOError string
  | RuntimeError string

text \<open>A \<open>Version\<close> object is opaque to the module apart from its ordering.\<close>

type_synonym version = "nat \<times> nat \<times> nat"

fun version_gt :: "version \<Rightarrow> version \<Rightarrow> bool" where
  "version_gt (a, b, c) (a', b', c') =
     (a > a' \<or> (a = a' \<and> (b > b' \<or> (b = b' \<and> c > c'))))"

text \<open>
  A dependency spec is a pair (component name, version requirement). The description
  document is the ordered dictionary read from \<open>package.json\<close>; the model keeps the
  four keys the module reads. \<open>name\<close> is a string that every document carries;
  \<open>version\<close>, \<open>dependencies\<close> and \<open>targetDependencies\<close> may be missing, and a
  subscript on a missing key raises \<open>KeyError\<close>. The value of \<open>dependencies\<close> is the
  item list of an ordered dictionary, the value of \<open>targetDependencies\<close> maps a target
  name to a sequence of extra specs.
\<close>

type_synonym spec = "string \<times> string"

record description =
  doc_name :: string
  doc_version :: "string option"
  doc_dependencies :: "spec list option"
  doc_targetDependencies :: "(string \<times> spec list) list option"

text \<open>
  A target is an object of the class \<open>Target\<close>, defined outside the module: the model
  keeps its truth value and the list its method \<open>dependencyResolutionOrder()\<close> returns.
\<close>

record target =
  target_nonzero :: bool
  dependencyResolutionOrder :: "string list"

section \<open>The class \<open>Component\<close>\<close>

record Component =
  error :: "exn option"
  path :: string
  installed_previously :: bool
  installed_linked :: bool
  installed_dependencies :: bool
  dependencies_failed :: bool
  version :: "version option"
  latest_suitable_version :: "version option"
  vcs :: "nat option"
  component_info :: "description option"

definition Modules_Folder :: string where
  "Modules_Folder = ''yotta_modules''"

definition Targets_Folder :: string where
  "Targets_Folder = ''yotta_targets''"

definition Component_Description_File :: string where
  "Component_Description_File = ''package.json''"

text \<open>\<open>os.path.join\<close> of a directory and a relative name.\<close>

definition path_join :: "string \<Rightarrow> string \<Rightarrow> string" where
  "path_join a b = (if a = [] \<or> last a = CHR ''/'' then a @ b else a @ ''/'' @ b)"

text \<open>
  \<open>Component.__init__\<close>. \<open>readJSON\<close> is \<open>ordered_json.readJSON\<close> on the file system of
  the call, \<open>Version\<close> is the constructor \<open>version.Version\<close>, \<open>getVCS\<close> is \<open>vcs.getVCS\<close>.
  Every exception raised inside the \<open>try\<close> block is caught and stored.
\<close>

definition Component_init ::
  "(string \<Rightarrow> exn + description) \<Rightarrow> (string \<Rightarrow> exn + version) \<Rightarrow> (string \<Rightarrow> nat option) \<Rightarrow>
   string \<Rightarrow> bool \<Rightarrow> bool \<Rightarrow> version option \<Rightarrow> Component" where
  "Component_init readJSON Version getVCS p ip il lsv =
     (let self = \<lparr> error = None, path = p, installed_previously = ip, installed_linked = il,
                   installed_dependencies = False, dependencies_failed = False,
                   version = None, latest_suitable_version = lsv, vcs = None,
                   component_info = None \<rparr>;
          self = (case readJSON (path_join p Component_Description_File) of
                    Inl e \<Rightarrow> self\<lparr> component_info := None, error := Some e \<rparr>
                  | Inr d \<Rightarrow>
                      (case doc_version d of
                         None \<Rightarrow> self\<lparr> component_info := None, error := Some (KeyError ''version'') \<rparr>
                       | Some s \<Rightarrow>
                           (case Version s of
                              Inl e \<Rightarrow> self\<lparr> component_info := None, error := Some e \<rparr>
                            | Inr v \<Rightarrow> self\<lparr> component_info := Some d, version := Some v \<rparr>)))
      in self\<lparr> vcs := getVCS p \<rparr>)"

text \<open>
  \<open>__nonzero__\<close> is \<open>bool(self.component_info)\<close>: false on \<open>None\<close>, and on a dictionary
  true when it has a key, which a document always has (its \<open>name\<close>).
\<close>

definition nonzero :: "Component \<Rightarrow> bool" where
  "nonzero self = (case component_info self of None \<Rightarrow> False | Some d \<Rightarrow> True)"

definition getName :: "Component \<Rightarrow> exn + string" where
  "getName self =
     (case component_info self of
        None \<Rightarrow> Inl (TypeError ''NoneType object has no attribute __getitem__'')
      | Some d \<Rightarrow> Inr (doc_name d))"

text \<open>The second definition of \<open>getVersion\<close> in the class body replaces the first.\<close>

definition getVersion :: "Component \<Rightarrow> version option" where
  "getVersion self = version self"

definition getError :: "Component \<Rightarrow> exn option" where
  "getError self = error self"

definition installedPreviously :: "Component \<Rightarrow> bool" where
  "installedPreviously self = installed_previously self"

definition installedDependencies :: "Component \<Rightarrow> bool" where
  "installedDependencies self = installed_dependencies self"

text \<open>
  \<open>outdated\<close>: a present \<open>latest_suitable_version\<close> is a truthy object. Comparing it
  with an absent version is left to the class \<open>Version\<close>; the model raises there.
\<close>

definition outdated :: "Component \<Rightarrow> exn + version option" where
  "outdated self =
     (case latest_suitable_version self of
        None \<Rightarrow> Inr None
      | Some l \<Rightarrow>
          (case version self of
             None \<Rightarrow> Inl (TypeError ''cannot compare a Version with None'')
           | Some v \<Rightarrow> Inr (if version_gt l v then Some l else None)))"

subsection \<open>\<open>getDependencySpecs\<close>\<close>

text \<open>
  The loop over \<open>target.dependencyResolutionOrder()\<close>: the first name that is a key
  of \<open>targetDependencies\<close> supplies the extra specs, and the \<open>break\<close> ends the loop.
\<close>

fun target_specs :: "(string \<times> spec list) list \<Rightarrow> string list \<Rightarrow> spec list" where
  "target_specs td [] = []"
| "target_specs td (t # ts) =
     (case map_of td t of
        Some extra \<Rightarrow> extra
      | None \<Rightarrow> target_specs td ts)"

definition getDependencySpecs :: "Component \<Rightarrow> target option \<Rightarrow> exn + spec list" where
  "getDependencySpecs self tgt =
     (case component_info self of
        None \<Rightarrow> Inl (TypeError ''NoneType object has no attribute __getitem__'')
      | Some d \<Rightarrow>
          (case doc_dependencies d of
             None \<Rightarrow> Inl (KeyError ''dependencies'')
           | Some deps \<Rightarrow>
               (case tgt of
                  None \<Rightarrow> Inr deps
                | Some t \<Rightarrow>
                    if target_nonzero t then
                      (case doc_targetDependencies d of
                         None \<Rightarrow> Inr deps
                       | Some td \<Rightarrow> Inr (deps @ target_specs td (dependencyResolutionOrder t)))
                    else Inr deps)))"

section \<open>The satisfiers of \<open>access\<close>\<close>

text \<open>
  \<open>access.satisfyVersion(name, version_required, working_directory, available,
  update_installed)\<close> returns a \<open>Component\<close> or raises; \<open>access.satisfyTarget\<close> likewise
  returns a target. Both act on the world. The error list a resolution returns holds
  the caught exceptions and, in front of them, a line of context.
\<close>

type_synonym components = "(string \<times> Component) list"

record version_request =
  vr_name :: string
  vr_version_required :: string
  vr_working_directory :: string
  vr_available :: components
  vr_update_installed :: "string option"

record target_request =
  tr_name :: string
  tr_version_required :: string
  tr_working_directory :: string
  tr_update_installed :: "string option"

type_synonym 'w satisfyVersion = "version_request \<Rightarrow> 'w \<Rightarrow> (exn + Component) \<times> 'w"

type_synonym 'w accessSatisfyTarget = "target_request \<Rightarrow> 'w \<Rightarrow> (exn + target) \<times> 'w"

datatype report = Context string | Raised exn

text \<open>
  A Python dictionary is an association list with distinct keys: assigning to a key
  that is present replaces its value in place, assigning to a new key appends it.
  \<open>d.update(e)\<close> assigns the items of \<open>e\<close> in turn. The interpreter does not fix
  the order in which a dictionary is iterated; the model iterates in the order of
  insertion.
\<close>

definition dict_update :: "components \<Rightarrow> components \<Rightarrow> components" where
  "dict_update d e = fold (\<lambda>(k, v). AList.update k v) e d"

definition dict_keys :: "components \<Rightarrow> string list" where
  "dict_keys d = map fst d"

definition dict_values :: "components \<Rightarrow> Component list" where
  "dict_values d = map snd d"

section \<open>\<open>satisfyDependencies\<close>\<close>

text \<open>
  The inner function \<open>satisfyDep\<close>. Its effects are on the list \<open>errors\<close>, on the flag
  \<open>self.dependencies_failed\<close> and on the world; the model threads the three.
  \<open>ComponentUnavailable\<close> is caught and the call returns \<open>None\<close>; any other exception
  leaves the function.
\<close>

definition update_directive :: "bool \<Rightarrow> string option" where
  "update_directive update_installed = (if update_installed then Some ''Update'' else None)"

definition satisfyDep ::
  "'w satisfyVersion \<Rightarrow> string \<Rightarrow> components \<Rightarrow> bool \<Rightarrow> spec \<Rightarrow>
   report list \<times> bool \<times> 'w \<Rightarrow> exn + (Component option \<times> report list \<times> bool \<times> 'w)" where
  "satisfyDep access_satisfyVersion modules_path available_components update_installed sp st =
     (case (sp, st) of ((name, ver_req), (errors, failed, w)) \<Rightarrow>
        (case access_satisfyVersion
                \<lparr> vr_name = name, vr_version_required = ver_req,
                  vr_working_directory = modules_path, vr_available = available_components,
                  vr_update_installed = update_directive update_installed \<rparr> w of
           (Inr c, w') \<Rightarrow> Inr (Some c, errors, failed, w')
         | (Inl e, w') \<Rightarrow>
             (case e of
                ComponentUnavailable m \<Rightarrow> Inr (None, errors @ [Raised e], True, w')
              | _ \<Rightarrow> Inl e)))"

text \<open>
  \<open>pool.map(satisfyDep, specs)\<close>: the worker pool may run the calls side by side, and
  the results come back in the order of the specs. The model runs the calls one
  after the other in that order.
\<close>

fun pool_map ::
  "(spec \<Rightarrow> report list \<times> bool \<times> 'w \<Rightarrow> exn + (Component option \<times> report list \<times> bool \<times> 'w)) \<Rightarrow>
   spec list \<Rightarrow> report list \<times> bool \<times> 'w \<Rightarrow>
   exn + (Component option list \<times> report list \<times> bool \<times> 'w)" where
  "pool_map f [] st = Inr ([], st)"
| "pool_map f (sp # sps) st =
     (case f sp st of
        Inl e \<Rightarrow> Inl e
      | Inr (d, st') \<Rightarrow>
          (case pool_map f sps st' of
             Inl e \<Rightarrow> Inl e
           | Inr (ds, st'') \<Rightarrow> Inr (d # ds, st'')))"

text \<open>
  The dictionary comprehension \<open>{d.component_info['name']: d for d in dependencies if d}\<close>.
\<close>

fun components_by_name :: "Component option list \<Rightarrow> components \<Rightarrow> components" where
  "components_by_name [] acc = acc"
| "components_by_name (None # ds) acc = components_by_name ds acc"
| "components_by_name (Some d # ds) acc =
     (case component_info d of
        None \<Rightarrow> components_by_name ds acc
      | Some info \<Rightarrow> components_by_name ds (AList.update (doc_name info) d acc))"

text \<open>
  \<open>satisfyDependencies\<close> returns \<open>(components, errors)\<close> and changes \<open>self\<close> and the
  world: the model returns the four.
\<close>

definition satisfyDependencies ::
  "'w satisfyVersion \<Rightarrow> Component \<Rightarrow> components \<Rightarrow> bool \<Rightarrow> target option \<Rightarrow> 'w \<Rightarrow>
   exn + (Component \<times> components \<times> report list \<times> 'w)" where
  "satisfyDependencies access_satisfyVersion self available_components update_installed tgt w =
     (let modules_path = path_join (path self) Modules_Folder in
      case getDependencySpecs self tgt of
        Inl e \<Rightarrow> Inl e
      | Inr specs \<Rightarrow>
          (case pool_map (satisfyDep access_satisfyVersion modules_path available_components
                            update_installed)
                  specs ([], dependencies_failed self, w) of
             Inl e \<Rightarrow> Inl e
           | Inr (dependencies, errors, failed, w') \<Rightarrow>
               Inr (self\<lparr> dependencies_failed := failed, installed_dependencies := True \<rparr>,
                    components_by_name dependencies [], errors, w')))"

section \<open>\<open>satisfyDependenciesRecursive\<close>\<close>

text \<open>
  The inner function \<open>recursionFilter\<close>, a closure over \<open>self\<close>, \<open>available_components\<close>
  and \<open>update_installed\<close>. The arguments of its two \<open>logging.debug\<close> calls are
  evaluated, so \<open>self.getName()\<close> is part of the function.
\<close>

definition recursionFilter ::
  "Component \<Rightarrow> components \<Rightarrow> bool \<Rightarrow> Component \<Rightarrow> exn + bool" where
  "recursionFilter self available_components update_installed c =
     (if \<not> nonzero c then Inr False
      else
        (case getName c of
           Inl e \<Rightarrow> Inl e
         | Inr n \<Rightarrow>
             if n \<in> set (dict_keys available_components) then Inr False
             else if installed_linked c then Inr False
             else if update_installed then
               (case getName self of
                  Inl e \<Rightarrow> Inl e
                | Inr _ \<Rightarrow>
                    (case outdated c of
                       Inl e \<Rightarrow> Inl e
                     | Inr (Some newer) \<Rightarrow> Inr True
                     | Inr None \<Rightarrow> Inr (\<not> installedDependencies c)))
             else
               (case getName self of
                  Inl e \<Rightarrow> Inl e
                | Inr _ \<Rightarrow> Inr (\<not> (installedPreviously c \<or> installedDependencies c)))))"

text \<open>The builtin \<open>filter\<close> with a predicate that can raise.\<close>

fun filter_raising :: "('a \<Rightarrow> exn + bool) \<Rightarrow> 'a list \<Rightarrow> exn + 'a list" where
  "filter_raising f [] = Inr []"
| "filter_raising f (x # xs) =
     (case f x of
        Inl e \<Rightarrow> Inl e
      | Inr b \<Rightarrow>
          (case filter_raising f xs of
             Inl e \<Rightarrow> Inl e
           | Inr ys \<Rightarrow> Inr (if b then x # ys else ys)))"

text \<open>
  The state of a run: the shared dictionary \<open>available_components\<close>, the world, and
  the lines \<open>name@version\<close> that each call writes with \<open>logging.info\<close> just before
  it returns (\<open>visited\<close>).
\<close>

record 'w run =
  available :: components
  world :: 'w
  visited :: "(string \<times> version option) list"

text \<open>
  The method calls itself on components the satisfier returns, so nothing bounds
  its depth but the recursion limit of the interpreter: the first argument is the
  number of nested calls the interpreter still allows, and a call made with none
  left raises \<open>RuntimeError\<close>. \<open>recurse\<close> is the loop over \<open>need_recursion\<close>. The
  result is \<open>(self, components, errors)\<close> and the state of the run.

  A \<open>Component\<close> is a value in the model, and a dictionary holds each component as
  the satisfier returned it. The flags \<open>installed_dependencies\<close> and
  \<open>dependencies_failed\<close>, which a call sets on its \<open>self\<close>, are those of the component
  the call returns; they are not written back into the dictionaries that hold the
  same object, so an entry of a dictionary shows the flags its component had when
  the satisfier returned it.
\<close>

fun satisfyDependenciesRecursive ::
  "nat \<Rightarrow> 'w satisfyVersion \<Rightarrow> Component \<Rightarrow> bool \<Rightarrow> target option \<Rightarrow> 'w run \<Rightarrow>
   exn + ((Component \<times> components \<times> report list) \<times> 'w run)"
and recurse ::
  "nat \<Rightarrow> 'w satisfyVersion \<Rightarrow> Component list \<Rightarrow> bool \<Rightarrow> target option \<Rightarrow>
   report list \<Rightarrow> 'w run \<Rightarrow> exn + (report list \<times> 'w run)" where
  "satisfyDependenciesRecursive 0 access_satisfyVersion self update_installed tgt st =
     Inl (RuntimeError ''maximum recursion depth exceeded'')"
| "satisfyDependenciesRecursive (Suc depth) access_satisfyVersion self update_installed tgt st =
     (case satisfyDependencies access_satisfyVersion self (available st) update_installed tgt
             (world st) of
        Inl e \<Rightarrow> Inl e
      | Inr (self', components, errors, w) \<Rightarrow>
          (let errors = (if errors \<noteq> []
                         then Context (''Failed to satisfy dependencies of '' @ path self' @ '':'')
                              # errors
                         else errors) in
           case filter_raising (recursionFilter self' (available st) update_installed)
                  (dict_values components) of
             Inl e \<Rightarrow> Inl e
           | Inr need_recursion \<Rightarrow>
               (case recurse depth access_satisfyVersion need_recursion update_installed tgt errors
                       (st\<lparr> available := dict_update (available st) components, world := w \<rparr>) of
                  Inl e \<Rightarrow> Inl e
                | Inr (errors, st') \<Rightarrow>
                    (case getName self' of
                       Inl e \<Rightarrow> Inl e
                     | Inr n \<Rightarrow>
                         Inr ((self', components, errors),
                              st'\<lparr> visited := visited st' @ [(n, getVersion self')] \<rparr>)))))"
| "recurse depth access_satisfyVersion [] update_installed tgt errors st = Inr (errors, st)"
| "recurse depth access_satisfyVersion (c # cs) update_installed tgt errors st =
     (case satisfyDependenciesRecursive depth access_satisfyVersion c update_installed tgt st of
        Inl e \<Rightarrow> Inl e
      | Inr ((c', dep_components, dep_errors), st') \<Rightarrow>
          recurse depth access_satisfyVersion cs update_installed tgt (errors @ dep_errors)
            (st'\<lparr> available := dict_update (available st') dep_components \<rparr>))"

section \<open>\<open>satisfyTarget\<close>\<close>

text \<open>
  \<open>s.split(',', 1)\<close> cuts at the first comma, and gives the whole string as the
  only element when there is none.
\<close>

definition split_comma :: "string \<Rightarrow> string list" where
  "split_comma s =
     (case dropWhile (\<lambda>c. c \<noteq> CHR '','') s of
        [] \<Rightarrow> [s]
      | _ # rest \<Rightarrow> [takeWhile (\<lambda>c. c \<noteq> CHR '','') s, rest])"

text \<open>
  The assignment to \<open>target_name, target_version_req\<close> needs two elements and raises
  \<open>ValueError\<close> otherwise; only \<open>TargetUnavailable\<close> is caught.
\<close>

definition satisfyTarget ::
  "'w accessSatisfyTarget \<Rightarrow> Component \<Rightarrow> string \<Rightarrow> bool \<Rightarrow> 'w \<Rightarrow>
   exn + ((target option \<times> report list) \<times> 'w)" where
  "satisfyTarget access_satisfyTarget self target_name_and_version update_installed w =
     (let targets_path = path_join (path self) Targets_Folder in
      case split_comma target_name_and_version of
        [target_name, target_version_req] \<Rightarrow>
          (case access_satisfyTarget
                  \<lparr> tr_name = target_name, tr_version_required = target_version_req,
                    tr_working_directory = targets_path,
                    tr_update_installed = update_directive update_installed \<rparr> w of
             (Inr t, w') \<Rightarrow> Inr ((Some t, []), w')
           | (Inl e, w') \<Rightarrow>
               (case e of
                  TargetUnavailable m \<Rightarrow> Inr ((None, [Raised e]), w')
                | _ \<Rightarrow> Inl e))
      | _ \<Rightarrow> Inl (ValueError ''need more than 1 value to unpack''))"

section \<open>Notions used to state the properties\<close>

text \<open>
  The calls a level makes to the satisfier, each with the request it passes and the
  outcome it gets, in the order of the specs and threading the world as \<open>pool_map\<close>
  over \<open>satisfyDep\<close> does.
\<close>

fun satisfier_calls ::
  "'w satisfyVersion \<Rightarrow> string \<Rightarrow> components \<Rightarrow> bool \<Rightarrow> spec list \<Rightarrow> 'w \<Rightarrow>
   (version_request \<times> (exn + Component)) list" where
  "satisfier_calls sat modules_path avail upd [] w = []"
| "satisfier_calls sat modules_path avail upd (sp # sps) w =
     (let rq = \<lparr> vr_name = fst sp, vr_version_required = snd sp,
                 vr_working_directory = modules_path, vr_available = avail,
                 vr_update_installed = update_directive upd \<rparr>
      in (rq, fst (sat rq w)) # satisfier_calls sat modules_path avail upd sps (snd (sat rq w)))"

definition level_outcomes ::
  "'w satisfyVersion \<Rightarrow> Component \<Rightarrow> components \<Rightarrow> bool \<Rightarrow> spec list \<Rightarrow> 'w \<Rightarrow>
   (exn + Component) list" where
  "level_outcomes sat self avail upd specs w =
     map snd (satisfier_calls sat (path_join (path self) Modules_Folder) avail upd specs w)"


text \<open>The components among the outcomes, and the exceptions among them as reports.\<close>

fun returned :: "(exn + 'a) list \<Rightarrow> 'a list" where
  "returned [] = []"
| "returned (Inl e # rs) = returned rs"
| "returned (Inr c # rs) = c # returned rs"

fun raised :: "(exn + 'a) list \<Rightarrow> report list" where
  "raised [] = []"
| "raised (Inl e # rs) = Raised e # raised rs"
| "raised (Inr c # rs) = raised rs"

definition is_unavailable :: "exn \<Rightarrow> bool" where
  "is_unavailable e = (case e of ComponentUnavailable m \<Rightarrow> True | _ \<Rightarrow> False)"

definition result_option :: "exn + 'a \<Rightarrow> 'a option" where
  "result_option r = (case r of Inl e \<Rightarrow> None | Inr c \<Rightarrow> Some c)"

text \<open>Every exception among the outcomes is \<open>ComponentUnavailable\<close>.\<close>

definition all_unavailable :: "(exn + 'a) list \<Rightarrow> bool" where
  "all_unavailable rs = list_all (\<lambda>r. case r of Inl e \<Rightarrow> is_unavailable e | Inr c \<Rightarrow> True) rs"

text \<open>
  The specification of \<open>getDependencySpecs\<close> in its own words: the first name of the
  target's resolution order that is a key of \<open>targetDependencies\<close>, and the declared
  dependencies followed by the extra specs of that one name.
\<close>

definition spec_first_ancestor :: "(string \<times> spec list) list \<Rightarrow> string list \<Rightarrow> string option" where
  "spec_first_ancestor td order = find (\<lambda>a. a \<in> set (map fst td)) order"

definition spec_dependency_specs ::
  "spec list \<Rightarrow> (string \<times> spec list) list option \<Rightarrow> target option \<Rightarrow> spec list" where
  "spec_dependency_specs deps tds tgt =
     (case tgt of
        None \<Rightarrow> deps
      | Some t \<Rightarrow>
          if \<not> target_nonzero t then deps
          else
            (case tds of
               None \<Rightarrow> deps
             | Some td \<Rightarrow>
                 (case spec_first_ancestor td (dependencyResolutionOrder t) of
                    None \<Rightarrow> deps
                  | Some a \<Rightarrow> (case map_of td a of None \<Rightarrow> deps | Some extra \<Rightarrow> deps @ extra))))"

section \<open>Example components and collaborators\<close>

definition example_component :: "string \<Rightarrow> version \<Rightarrow> spec list option \<Rightarrow> Component" where
  "example_component n v deps =
     \<lparr> error = None, path = ''/work/yotta_modules/'' @ n, installed_previously = False,
       installed_linked = False, installed_dependencies = False, dependencies_failed = False,
       version = Some v, latest_suitable_version = None, vcs = None,
       component_info = Some \<lparr> doc_name = n, doc_version = Some ''1.0.0'',
                                doc_dependencies = deps, doc_targetDependencies = None \<rparr> \<rparr>"

text \<open>
  A satisfier over a registry of installable components, keyed by name and version
  requirement. It answers from \<open>available\<close> when the requested name is a key there,
  else from the registry, else it raises \<open>ComponentUnavailable\<close>. Its world is the
  list of the requests it has received.
\<close>

type_synonym request_log = "(string \<times> string \<times> string option) list"

definition registry_satisfier :: "((string \<times> string) \<times> Component) list \<Rightarrow> request_log satisfyVersion" where
  "registry_satisfier registry rq w =
     (let w' = w @ [(vr_name rq, vr_version_required rq, vr_update_installed rq)] in
      case map_of (vr_available rq) (vr_name rq) of
        Some c \<Rightarrow> (Inr c, w')
      | None \<Rightarrow>
          (case map_of registry (vr_name rq, vr_version_required rq) of
             Some c \<Rightarrow> (Inr c, w')
           | None \<Rightarrow> (Inl (ComponentUnavailable (vr_name rq)), w')))"

definition example_Version :: "string \<Rightarrow> exn + version" where
  "example_Version s =
     (if s = ''1.0.0'' then Inr (1, 0, 0)
      else if s = ''2.0.0'' then Inr (2, 0, 0)
      else Inl (ValueError s))"

definition example_document :: description where
  "example_document =
     \<lparr> doc_name = ''root'', doc_version = Some ''1.0.0'',
       doc_dependencies = Some [(''A'', ''1.0.0'')],
       doc_targetDependencies = Some [(''linux'', [(''A'', ''2.0.0'')]), (''generic'', [(''G'', ''*'')])] \<rparr>"

definition example_readJSON :: "string \<Rightarrow> exn + description" where
  "example_readJSON p =
     (if p = ''/work/package.json'' then Inr example_document
      else if p = ''/bad/package.json'' then Inr (example_document\<lparr> doc_version := Some ''one'' \<rparr>)
      else Inl (IOError p))"

definition example_root :: Component where
  "example_root = Component_init example_readJSON example_Version (\<lambda>p. None) ''/work'' False False None"

definition example_target :: target where
  "example_target = \<lparr> target_nonzero = True,
                      dependencyResolutionOrder = [''x86-linux'', ''linux'', ''generic''] \<rparr>"

definition root_of :: "spec list option \<Rightarrow> Component" where
  "root_of deps = (example_component ''root'' (0, 1, 0) deps)\<lparr> path := ''/work'' \<rparr>"

definition comp_A1 :: Component where
  "comp_A1 = example_component ''A'' (1, 0, 0) (Some [(''X'', ''*'')])"

definition comp_A2 :: Component where
  "comp_A2 = example_component ''A'' (2, 0, 0) (Some [])"

definition comp_L :: Component where
  "comp_L = (example_component ''L'' (1, 0, 0) (Some [(''A'', ''*'')]))
              \<lparr> installed_linked := True, installed_previously := True,
                latest_suitable_version := Some (2, 0, 0) \<rparr>"

definition comp_F :: Component where
  "comp_F = (example_component ''F'' (1, 0, 0) None)
              \<lparr> component_info := None, version := None, error := Some (IOError ''F/package.json'') \<rparr>"

definition example_registry :: "((string \<times> string) \<times> Component) list" where
  "example_registry =
     [((''A'', ''*''), comp_A1), ((''X'', ''*''), comp_A2), ((''A'', ''2.0.0''), comp_A2),
      ((''L'', ''*''), comp_L), ((''F'', ''*''), comp_F)]"

definition example_satisfyTarget :: "request_log accessSatisfyTarget" where
  "example_satisfyTarget rq w =
     (let w' = w @ [(tr_name rq, tr_version_required rq, tr_update_installed rq)] in
      if tr_name rq = ''x86-linux'' then (Inr example_target, w')
      else (Inl (TargetUnavailable (tr_name rq)), w'))"

definition start :: "request_log run" where
  "start = \<lparr> available = [], world = [], visited = [] \<rparr>"






section \<open>Auxiliary facts\<close>

lemma nonzero_iff: "nonzero c \<longleftrightarrow> component_info c \<noteq> None"
  by (simp add: nonzero_def split: option.splits)

lemma target_specs_find:
  "target_specs td order =
     (case find (\<lambda>a. a \<in> set (map fst td)) order of
        None \<Rightarrow> []
      | Some a \<Rightarrow> (case map_of td a of None \<Rightarrow> [] | Some extra \<Rightarrow> extra))"
proof (induction order)
  case Nil
  show ?case by simp
next
  case (Cons t ts)
  show ?case
  proof (cases "map_of td t")
    case None
    then have "t \<notin> set (map fst td)" by (simp add: map_of_eq_None_iff)
    with None Cons show ?thesis by simp
  next
    case (Some extra)
    then have "t \<in> set (map fst td)" by (metis map_of_eq_None_iff option.distinct(1) set_map)
    with Some show ?thesis by simp
  qed
qed

lemma satisfyDep_cases:
  "satisfyDep sat mp avail upd (n, v) (errs, failed, w) =
     (let rq = \<lparr> vr_name = n, vr_version_required = v, vr_working_directory = mp,
                 vr_available = avail, vr_update_installed = update_directive upd \<rparr>
      in case fst (sat rq w) of
           Inr c \<Rightarrow> Inr (Some c, errs, failed, snd (sat rq w))
         | Inl e \<Rightarrow> if is_unavailable e
                    then Inr (None, errs @ [Raised e], True, snd (sat rq w))
                    else Inl e)"
  by (simp add: satisfyDep_def is_unavailable_def Let_def split: prod.splits sum.splits exn.splits)

lemma pool_map_satisfyDep_Inr:
  "pool_map (satisfyDep sat mp avail upd) specs (errs, failed, w) = Inr (ds, errs', failed', w') \<Longrightarrow>
   ds = map result_option (map snd (satisfier_calls sat mp avail upd specs w)) \<and>
   errs' = errs @ raised (map snd (satisfier_calls sat mp avail upd specs w)) \<and>
   failed' = (failed \<or> raised (map snd (satisfier_calls sat mp avail upd specs w)) \<noteq> []) \<and>
   all_unavailable (map snd (satisfier_calls sat mp avail upd specs w))"
proof (induction specs arbitrary: errs failed w ds errs' failed' w')
  case Nil
  then show ?case by (simp add: all_unavailable_def)
next
  case (Cons sp sps)
  obtain n v where sp: "sp = (n, v)" by (cases sp)
  define rq where "rq = \<lparr> vr_name = n, vr_version_required = v,
                 vr_working_directory = mp, vr_available = avail,
                 vr_update_installed = update_directive upd \<rparr>"
  define r where "r = fst (sat rq w)"
  define w1 where "w1 = snd (sat rq w)"
  have calls: "satisfier_calls sat mp avail upd (sp # sps) w =
                 (rq, r) # satisfier_calls sat mp avail upd sps w1"
    by (simp add: sp rq_def r_def w1_def Let_def)
  show ?case
  proof (cases r)
    case (Inr c)
    then have step: "satisfyDep sat mp avail upd sp (errs, failed, w) = Inr (Some c, errs, failed, w1)"
      unfolding sp satisfyDep_cases by (simp add: rq_def r_def w1_def Let_def)
    with Cons.prems obtain ds1 where
      pm: "pool_map (satisfyDep sat mp avail upd) sps (errs, failed, w1) = Inr (ds1, errs', failed', w')"
      and ds: "ds = Some c # ds1"
      by (auto split: sum.splits)
    from Cons.IH[OF pm] ds Inr show ?thesis
      unfolding calls by (simp add: result_option_def all_unavailable_def)
  next
    case (Inl e)
    show ?thesis
    proof (cases "is_unavailable e")
      case True
      with Inl have step: "satisfyDep sat mp avail upd sp (errs, failed, w) =
                        Inr (None, errs @ [Raised e], True, w1)"
        unfolding sp satisfyDep_cases by (simp add: rq_def r_def w1_def Let_def)
      with Cons.prems obtain ds1 where
        pm: "pool_map (satisfyDep sat mp avail upd) sps (errs @ [Raised e], True, w1) =
               Inr (ds1, errs', failed', w')"
        and ds: "ds = None # ds1"
        by (auto split: sum.splits)
      from Cons.IH[OF pm] ds Inl True show ?thesis
        unfolding calls by (simp add: result_option_def all_unavailable_def)
    next
      case False
      with Inl have "satisfyDep sat mp avail upd sp (errs, failed, w) = Inl e"
        unfolding sp satisfyDep_cases by (simp add: rq_def r_def w1_def Let_def)
      with Cons.prems show ?thesis by simp
    qed
  qed
qed

lemma pool_map_satisfyDep_total:
  "all_unavailable (map snd (satisfier_calls sat mp avail upd specs w)) \<Longrightarrow>
   \<exists>res. pool_map (satisfyDep sat mp avail upd) specs (errs, failed, w) = Inr res"
proof (induction specs arbitrary: errs failed w)
  case Nil
  then show ?case by simp
next
  case (Cons sp sps)
  obtain n v where sp: "sp = (n, v)" by (cases sp)
  define rq where "rq = \<lparr> vr_name = n, vr_version_required = v,
                 vr_working_directory = mp, vr_available = avail,
                 vr_update_installed = update_directive upd \<rparr>"
  define r where "r = fst (sat rq w)"
  define w1 where "w1 = snd (sat rq w)"
  have calls: "satisfier_calls sat mp avail upd (sp # sps) w =
                 (rq, r) # satisfier_calls sat mp avail upd sps w1"
    by (simp add: sp rq_def r_def w1_def Let_def)
  from Cons.prems
  have rest: "all_unavailable (map snd (satisfier_calls sat mp avail upd sps w1))"
    and r: "case r of Inl e \<Rightarrow> is_unavailable e | Inr c \<Rightarrow> True"
    unfolding calls by (simp_all add: all_unavailable_def)
  show ?case
  proof (cases r)
    case (Inr c)
    then have step: "satisfyDep sat mp avail upd sp (errs, failed, w) = Inr (Some c, errs, failed, w1)"
      unfolding sp satisfyDep_cases by (simp add: rq_def r_def w1_def Let_def)
    from Cons.IH[OF rest, of errs failed] obtain res where
      "pool_map (satisfyDep sat mp avail upd) sps (errs, failed, w1) = Inr res"
      by blast
    with step show ?thesis by (cases res) simp
  next
    case (Inl e)
    with r have "is_unavailable e" by simp
    with Inl have step: "satisfyDep sat mp avail upd sp (errs, failed, w) =
                        Inr (None, errs @ [Raised e], True, w1)"
      unfolding sp satisfyDep_cases by (simp add: rq_def r_def w1_def Let_def)
    from Cons.IH[OF rest, of "errs @ [Raised e]" True] obtain res where
      "pool_map (satisfyDep sat mp avail upd) sps (errs @ [Raised e], True, w1) = Inr res"
      by blast
    with step show ?thesis by (cases res) simp
  qed
qed


lemma find_snoc:
  "find P (xs @ [x]) = (case find P xs of Some y \<Rightarrow> Some y | None \<Rightarrow> if P x then Some x else None)"
  by (induction xs) auto

lemma find_SomeD: "find P xs = Some x \<Longrightarrow> P x \<and> x \<in> set xs"
  by (induction xs) (auto split: if_splits)

lemma map_of_components_by_name:
  "map_of (components_by_name (map result_option outs) acc) k =
     (case find (\<lambda>c. getName c = Inr k) (rev (returned outs)) of
        Some c \<Rightarrow> Some c
      | None \<Rightarrow> map_of acc k)"
proof (induction outs arbitrary: acc)
  case Nil
  show ?case by simp
next
  case (Cons r rs)
  show ?case
  proof (cases r)
    case (Inl e)
    with Cons show ?thesis by (simp add: result_option_def)
  next
    case (Inr c)
    show ?thesis
    proof (cases "component_info c")
      case None
      with Inr Cons[of acc] show ?thesis
        by (simp add: result_option_def find_snoc getName_def split: option.splits)
    next
      case (Some info)
      with Inr Cons[of "AList.update (doc_name info) c acc"] show ?thesis
        by (simp add: result_option_def find_snoc getName_def update_conv' split: option.splits)
    qed
  qed
qed

lemma distinct_components_by_name:
  "distinct (map fst acc) \<Longrightarrow> distinct (map fst (components_by_name ds acc))"
proof (induction ds acc rule: components_by_name.induct)
  case (3 d ds acc)
  then show ?case by (cases "component_info d") (simp_all add: distinct_update)
qed simp_all

lemma components_by_name_own_name:
  assumes "(k, c) \<in> set (components_by_name (map result_option outs) [])"
  shows "getName c = Inr k \<and> c \<in> set (returned outs)"
proof -
  have "distinct (map fst (components_by_name (map result_option outs) []))"
    by (rule distinct_components_by_name) simp
  with assms have "map_of (components_by_name (map result_option outs) []) k = Some c"
    by simp
  then have "find (\<lambda>c. getName c = Inr k) (rev (returned outs)) = Some c"
    by (simp add: map_of_components_by_name split: option.splits)
  from find_SomeD[OF this] show ?thesis by simp
qed

lemma satisfyDependencies_Inr:
  assumes "satisfyDependencies sat self avail upd tgt w = Inr (self', comps, errs, w')"
  shows "\<exists>specs. getDependencySpecs self tgt = Inr specs \<and>
           all_unavailable (level_outcomes sat self avail upd specs w) \<and>
           comps = components_by_name (map result_option (level_outcomes sat self avail upd specs w)) [] \<and>
           errs = raised (level_outcomes sat self avail upd specs w) \<and>
           self' = self\<lparr> dependencies_failed :=
                           (dependencies_failed self \<or> raised (level_outcomes sat self avail upd specs w) \<noteq> []),
                         installed_dependencies := True \<rparr>"
proof -
  from assms obtain specs where specs: "getDependencySpecs self tgt = Inr specs"
    by (auto simp: satisfyDependencies_def Let_def split: sum.splits)
  with assms obtain ds failed where
    pm: "pool_map (satisfyDep sat (path_join (path self) Modules_Folder) avail upd) specs
           ([], dependencies_failed self, w) = Inr (ds, errs, failed, w')"
    and comps: "comps = components_by_name ds []"
    and self': "self' = self\<lparr> dependencies_failed := failed, installed_dependencies := True \<rparr>"
    by (auto simp: satisfyDependencies_def Let_def split: sum.splits)
  from pool_map_satisfyDep_Inr[OF pm] specs comps self' show ?thesis
    by (simp add: level_outcomes_def)
qed

lemma satisfyDependencies_total:
  assumes "getDependencySpecs self tgt = Inr specs"
    and "all_unavailable (level_outcomes sat self avail upd specs w)"
  shows "\<exists>res. satisfyDependencies sat self avail upd tgt w = Inr res"
proof -
  from assms(2) have "all_unavailable (map snd (satisfier_calls sat
      (path_join (path self) Modules_Folder) avail upd specs w))"
    by (simp add: level_outcomes_def)
  from pool_map_satisfyDep_total[OF this, of "[]" "dependencies_failed self"]
  obtain res where "pool_map (satisfyDep sat (path_join (path self) Modules_Folder) avail upd) specs
           ([], dependencies_failed self, w) = Inr res" by blast
  with assms(1) show ?thesis
    by (cases res) (simp add: satisfyDependencies_def Let_def)
qed

lemma raised_Nil_iff: "raised rs = [] \<longleftrightarrow> (\<forall>e. Inl e \<notin> set rs)"
  by (induction rs rule: raised.induct) auto

lemma length_satisfier_calls: "length (satisfier_calls sat mp avail upd specs w) = length specs"
  by (induction specs arbitrary: w) (simp_all add: Let_def)


lemma keys_components_by_name:
  "set (dict_keys (components_by_name (map result_option outs) [])) =
     {k. \<exists>c \<in> set (returned outs). getName c = Inr k}"
proof -
  have "k \<in> set (dict_keys (components_by_name (map result_option outs) [])) \<longleftrightarrow>
        (\<exists>c \<in> set (returned outs). getName c = Inr k)" for k
  proof -
    have "k \<in> set (dict_keys (components_by_name (map result_option outs) [])) \<longleftrightarrow>
          map_of (components_by_name (map result_option outs) []) k \<noteq> None"
      by (simp add: dict_keys_def map_of_eq_None_iff)
    also have "\<dots> \<longleftrightarrow> find (\<lambda>c. getName c = Inr k) (rev (returned outs)) \<noteq> None"
      by (simp add: map_of_components_by_name split: option.splits)
    also have "\<dots> \<longleftrightarrow> (\<exists>c \<in> set (returned outs). getName c = Inr k)"
      by (auto simp: find_None_iff)
    finally show ?thesis .
  qed
  then show ?thesis by blast
qed












section \<open>The claims\<close>




text \<open>
  Claim C9. The truth value of a component is that of its description document: a
  component is true exactly when \<open>component_info\<close> is present. The constructor leaves
  it present exactly when the description file was read, has a \<open>version\<close> and that
  version parses; in every other case the constructor still returns a component, a
  false one that carries the exception in \<open>error\<close>, whatever the other arguments are.
\<close>

theorem Component_valid_iff_description_read:
  "(nonzero C \<longleftrightarrow> component_info C \<noteq> None) \<and>
   (nonzero (Component_init readJSON Version getVCS p ip il lsv) \<longleftrightarrow>
      (\<exists>d s v. readJSON (path_join p Component_Description_File) = Inr d \<and>
               doc_version d = Some s \<and> Version s = Inr v)) \<and>
   (nonzero (Component_init readJSON Version getVCS p ip il lsv) \<longleftrightarrow>
      error (Component_init readJSON Version getVCS p ip il lsv) = None)"
  by (auto simp: nonzero_def Component_init_def Let_def split: option.splits sum.splits)

text \<open>
  C9 on a readable description, on one whose version does not parse, and on a
  missing file.
\<close>

theorem Component_valid_iff_description_read_witness:
  "nonzero (Component_init example_readJSON example_Version (\<lambda>p. None) ''/work'' False False None) \<and>
   \<not> nonzero (Component_init example_readJSON example_Version (\<lambda>p. Some 1) ''/bad'' True True (Some (9, 9, 9))) \<and>
   \<not> nonzero (Component_init example_readJSON example_Version (\<lambda>p. None) ''/missing'' False True None) \<and>
   error (Component_init example_readJSON example_Version (\<lambda>p. None) ''/missing'' False True None) \<noteq> None"
proof -
  have a: "\<exists>d s v. example_readJSON (path_join ''/work'' Component_Description_File) = Inr d \<and>
               doc_version d = Some s \<and> example_Version s = Inr v"
    by (simp add: example_readJSON_def path_join_def Component_Description_File_def
        example_document_def example_Version_def)
  have b: "\<not> (\<exists>d s v. example_readJSON (path_join ''/bad'' Component_Description_File) = Inr d \<and>
               doc_version d = Some s \<and> example_Version s = Inr v)"
    by (simp add: example_readJSON_def path_join_def Component_Description_File_def
        example_document_def example_Version_def)
  have c: "\<not> (\<exists>d s v. example_readJSON (path_join ''/missing'' Component_Description_File) = Inr d \<and>
               doc_version d = Some s \<and> example_Version s = Inr v)"
    by (simp add: example_readJSON_def path_join_def Component_Description_File_def)
  from a b c
    Component_valid_iff_description_read [of example_root example_readJSON example_Version "\<lambda>p. None" "''/work''" False False None]
    Component_valid_iff_description_read [of example_root example_readJSON example_Version "\<lambda>p. Some 1" "''/bad''" True True "Some (9, 9, 9)"]
    Component_valid_iff_description_read [of example_root example_readJSON example_Version "\<lambda>p. None" "''/missing''" False True None]
  show ?thesis by blast
qed

text \<open>
  Claim C7. On a valid component with a \<open>dependencies\<close> key, \<open>getDependencySpecs\<close>
  returns the declared pairs in their order; with a target and a \<open>targetDependencies\<close>
  map it appends the extra specs of the first name of the target's resolution order
  that is a key of the map, and of that name only; with no such name, no target or
  no map the declared pairs are returned unchanged.
\<close>

theorem getDependencySpecs_first_matching_target:
  assumes "component_info self = Some d" and "doc_dependencies d = Some deps"
  shows "getDependencySpecs self tgt = Inr (spec_dependency_specs deps (doc_targetDependencies d) tgt)"
  using assms
  by (auto simp: getDependencySpecs_def spec_dependency_specs_def spec_first_ancestor_def
      target_specs_find split: option.splits)

text \<open>
  C7 on a document with blocks for \<open>linux\<close> and \<open>generic\<close> and a target whose order
  is \<open>x86-linux\<close>, \<open>linux\<close>, \<open>generic\<close>: the block of \<open>linux\<close> alone is appended.
\<close>

theorem getDependencySpecs_first_matching_target_witness:
  "component_info example_root = Some example_document \<and>
   doc_dependencies example_document = Some [(''A'', ''1.0.0'')] \<and>
   getDependencySpecs example_root (Some example_target) = Inr [(''A'', ''1.0.0''), (''A'', ''2.0.0'')] \<and>
   getDependencySpecs example_root (Some (example_target\<lparr> dependencyResolutionOrder := [''arm''] \<rparr>))
     = Inr [(''A'', ''1.0.0'')] \<and>
   getDependencySpecs example_root None = Inr [(''A'', ''1.0.0'')]"
proof -
  have a: "component_info example_root = Some example_document"
    by (simp add: example_root_def Component_init_def example_readJSON_def path_join_def
        Component_Description_File_def example_document_def example_Version_def)
  have b: "doc_dependencies example_document = Some [(''A'', ''1.0.0'')]"
    by (simp add: example_document_def)
  have c: "spec_dependency_specs [(''A'', ''1.0.0'')] (doc_targetDependencies example_document)
             (Some example_target) = [(''A'', ''1.0.0''), (''A'', ''2.0.0'')]"
    by (simp add: spec_dependency_specs_def spec_first_ancestor_def example_document_def
        example_target_def)
  have d: "spec_dependency_specs [(''A'', ''1.0.0'')] (doc_targetDependencies example_document)
             (Some (example_target\<lparr> dependencyResolutionOrder := [''arm''] \<rparr>)) = [(''A'', ''1.0.0'')]"
    by (simp add: spec_dependency_specs_def spec_first_ancestor_def example_document_def
        example_target_def)
  have e: "spec_dependency_specs [(''A'', ''1.0.0'')] (doc_targetDependencies example_document)
             None = [(''A'', ''1.0.0'')]"
    by (simp add: spec_dependency_specs_def)
  from a b c d e
    getDependencySpecs_first_matching_target [OF a b, of "Some example_target"]
    getDependencySpecs_first_matching_target [OF a b, of "Some (example_target\<lparr> dependencyResolutionOrder := [''arm''] \<rparr>)"]
    getDependencySpecs_first_matching_target [OF a b, of None]
  show ?thesis by simp
qed





text \<open>
  Claim C10. In the mapping \<open>satisfyDependencies\<close> returns, the entry of a key is the
  last component the satisfier returned whose own document declares that key as its
  name: the requested name plays no part. Every entry is a valid component, so a
  false component the satisfier returns has no entry, and the error list holds the
  exceptions the satisfier raised and nothing else.
\<close>

theorem satisfyDependencies_keyed_by_declared_name:
  assumes "satisfyDependencies sat self avail upd tgt w = Inr (self', comps, errs, w')"
    and "getDependencySpecs self tgt = Inr specs"
  shows "(\<forall>k. map_of comps k =
              find (\<lambda>c. getName c = Inr k) (rev (returned (level_outcomes sat self avail upd specs w)))) \<and>
         (\<forall>(k, c) \<in> set comps. getName c = Inr k \<and> nonzero c) \<and>
         errs = raised (level_outcomes sat self avail upd specs w)"
proof -
  let ?outs = "level_outcomes sat self avail upd specs w"
  from satisfyDependencies_Inr[OF assms(1)] assms(2)
  have comps: "comps = components_by_name (map result_option ?outs) []"
    and errs: "errs = raised ?outs"
    by auto
  have "map_of comps k = find (\<lambda>c. getName c = Inr k) (rev (returned ?outs))" for k
    unfolding comps by (simp add: map_of_components_by_name split: option.splits)
  moreover have "getName c = Inr k \<and> nonzero c" if "(k, c) \<in> set comps" for k c
    using components_by_name_own_name[of k c ?outs] that unfolding comps
    by (auto simp: getName_def nonzero_def split: option.splits)
  ultimately show ?thesis using errs by blast
qed

text \<open>
  C10 on a request for \<open>X\<close> answered by a component that declares the name \<open>A\<close>, and
  a request for \<open>F\<close> answered by a false component.
\<close>

theorem satisfyDependencies_keyed_by_declared_name_witness:
  "satisfyDependencies (registry_satisfier example_registry)
     (root_of (Some [(''X'', ''*''), (''F'', ''*'')])) [] False None []
     = Inr ((root_of (Some [(''X'', ''*''), (''F'', ''*'')]))\<lparr> installed_dependencies := True \<rparr>,
            [(''A'', comp_A2)], [], [(''X'', ''*'', None), (''F'', ''*'', None)]) \<and>
   getDependencySpecs (root_of (Some [(''X'', ''*''), (''F'', ''*'')])) None
     = Inr [(''X'', ''*''), (''F'', ''*'')] \<and>
   getName comp_A2 = Inr ''A'' \<and> nonzero comp_A2 \<and>
   raised (level_outcomes (registry_satisfier example_registry)
     (root_of (Some [(''X'', ''*''), (''F'', ''*'')])) [] False [(''X'', ''*''), (''F'', ''*'')] []) = []"
proof -
  let ?root = "root_of (Some [(''X'', ''*''), (''F'', ''*'')])"
  have run: "satisfyDependencies (registry_satisfier example_registry) ?root [] False None []
     = Inr (?root\<lparr> installed_dependencies := True \<rparr>,
            [(''A'', comp_A2)], [], [(''X'', ''*'', None), (''F'', ''*'', None)])"
    by code_simp
  have specs: "getDependencySpecs ?root None = Inr [(''X'', ''*''), (''F'', ''*'')]"
    by code_simp
  from satisfyDependencies_keyed_by_declared_name [OF run specs] run specs
  show ?thesis by simp
qed

text \<open>
  Claim C4, amended. When every exception the satisfier raises during
  \<open>satisfyDependencies\<close> is \<open>ComponentUnavailable\<close>, the call returns: the satisfier is
  called for every spec, the error list holds the exceptions in the order of the
  specs, \<open>dependencies_failed\<close> is true afterwards when there was one,
  \<open>installed_dependencies\<close> is set, and the keys of the returned mapping are exactly the
  names declared by the valid components the satisfier returned. A failed spec adds
  no entry; its name is a key only when another spec of the call resolves to a
  component that declares it.
\<close>

theorem satisfyDependencies_collects_unavailable:
  assumes "getDependencySpecs self tgt = Inr specs"
    and "all_unavailable (level_outcomes sat self avail upd specs w)"
  shows "\<exists>self' comps errs w'.
           satisfyDependencies sat self avail upd tgt w = Inr (self', comps, errs, w') \<and>
           errs = raised (level_outcomes sat self avail upd specs w) \<and>
           length (level_outcomes sat self avail upd specs w) = length specs \<and>
           dependencies_failed self' =
             (dependencies_failed self \<or> (\<exists>e. Inl e \<in> set (level_outcomes sat self avail upd specs w))) \<and>
           installed_dependencies self' \<and>
           set (dict_keys comps) =
             {k. \<exists>c \<in> set (returned (level_outcomes sat self avail upd specs w)). getName c = Inr k}"
proof -
  let ?outs = "level_outcomes sat self avail upd specs w"
  from satisfyDependencies_total[OF assms] obtain self' comps errs w' where
    run: "satisfyDependencies sat self avail upd tgt w = Inr (self', comps, errs, w')"
    by (metis prod_cases4)
  from satisfyDependencies_Inr[OF run] assms(1)
  have comps: "comps = components_by_name (map result_option ?outs) []"
    and errs: "errs = raised ?outs"
    and self': "self' = self\<lparr> dependencies_failed := (dependencies_failed self \<or> raised ?outs \<noteq> []),
                             installed_dependencies := True \<rparr>"
    by auto
  have len: "length ?outs = length specs"
    by (simp add: level_outcomes_def length_satisfier_calls)
  have failed: "dependencies_failed self' = (dependencies_failed self \<or> (\<exists>e. Inl e \<in> set ?outs))"
    unfolding self' by (simp add: raised_Nil_iff)
  have inst: "installed_dependencies self'"
    unfolding self' by simp
  have keys: "set (dict_keys comps) = {k. \<exists>c \<in> set (returned ?outs). getName c = Inr k}"
    unfolding comps by (rule keys_components_by_name)
  from run errs len failed inst keys show ?thesis by blast
qed

text \<open>
  C4 on the specs \<open>Z\<close>, which the registry does not have, and \<open>A\<close>.
\<close>

theorem satisfyDependencies_collects_unavailable_witness:
  "getDependencySpecs (root_of (Some [(''Z'', ''*''), (''A'', ''2.0.0'')])) None
     = Inr [(''Z'', ''*''), (''A'', ''2.0.0'')] \<and>
   all_unavailable (level_outcomes (registry_satisfier example_registry)
     (root_of (Some [(''Z'', ''*''), (''A'', ''2.0.0'')])) [] False [(''Z'', ''*''), (''A'', ''2.0.0'')] []) \<and>
   satisfyDependencies (registry_satisfier example_registry)
     (root_of (Some [(''Z'', ''*''), (''A'', ''2.0.0'')])) [] False None []
     = Inr ((root_of (Some [(''Z'', ''*''), (''A'', ''2.0.0'')]))
              \<lparr> dependencies_failed := True, installed_dependencies := True \<rparr>,
            [(''A'', comp_A2)], [Raised (ComponentUnavailable ''Z'')],
            [(''Z'', ''*'', None), (''A'', ''2.0.0'', None)])"
proof -
  let ?root = "root_of (Some [(''Z'', ''*''), (''A'', ''2.0.0'')])"
  have specs: "getDependencySpecs ?root None = Inr [(''Z'', ''*''), (''A'', ''2.0.0'')]"
    by code_simp
  have outs: "all_unavailable (level_outcomes (registry_satisfier example_registry) ?root [] False
                [(''Z'', ''*''), (''A'', ''2.0.0'')] [])"
    by code_simp
  have run: "satisfyDependencies (registry_satisfier example_registry) ?root [] False None []
     = Inr (?root\<lparr> dependencies_failed := True, installed_dependencies := True \<rparr>,
            [(''A'', comp_A2)], [Raised (ComponentUnavailable ''Z'')],
            [(''Z'', ''*'', None), (''A'', ''2.0.0'', None)])"
    by code_simp
  from satisfyDependencies_collects_unavailable [OF specs outs] specs outs run
  show ?thesis by simp
qed

text \<open>
  Claim C4 as stated fails: the document declares \<open>A\<close> under \<open>dependencies\<close> and again in
  the target block of \<open>linux\<close>. The first request fails with \<open>ComponentUnavailable\<close>,
  the second succeeds, and the failed name \<open>A\<close> is a key of the returned mapping.
\<close>

theorem satisfyDependencies_failed_name_present:
  "satisfyDependencies (registry_satisfier example_registry) example_root []
     False (Some example_target) []
     = Inr (example_root\<lparr> dependencies_failed := True, installed_dependencies := True \<rparr>,
            [(''A'', comp_A2)], [Raised (ComponentUnavailable ''A'')],
            [(''A'', ''1.0.0'', None), (''A'', ''2.0.0'', None)])"
  by code_simp




text \<open>
  Claim C3 against the code: on a valid root whose document has no \<open>dependencies\<close>
  key, the subscript in \<open>getDependencySpecs\<close> raises \<open>KeyError\<close> and
  \<open>satisfyDependenciesRecursive\<close> raises with it.
\<close>

theorem no_dependencies_key_raises:
  "nonzero (root_of None) \<and>
   satisfyDependenciesRecursive 1000 (registry_satisfier example_registry) (root_of None) False None
     start = Inl (KeyError ''dependencies'')"
  by code_simp

text \<open>
  Claim C8 against the code: on a specifier with no comma the unpacking of the split
  raises \<open>ValueError\<close>, which \<open>satisfyTarget\<close> does not catch; with the comma the
  same target resolves.
\<close>

theorem satisfyTarget_without_comma_raises:
  "satisfyTarget example_satisfyTarget example_root ''x86-linux'' False []
     = Inl (ValueError ''need more than 1 value to unpack'') \<and>
   satisfyTarget example_satisfyTarget example_root ''x86-linux,*'' False []
     = Inr ((Some example_target, []), [(''x86-linux'', ''*'', None)])"
  by code_simp

end
